theory Spec2Isabelle
  imports Main "HOL-Library.Sublist"
begin

section \<open>The OpenAPI document model\<close>

text \<open>
  The walker (\<^verbatim>\<open>src/openapi/OpenAPIWalker.ts\<close>) and the property compiler
  (\<^verbatim>\<open>src/n8n/SchemaToINodeProperties.ts\<close>) work on the parsed OpenAPI v3 document.
  JavaScript objects are association lists in key enumeration order, an optional member
  is an \<open>option\<close> (\<open>None\<close> is \<^verbatim>\<open>undefined\<close>), and a node that may be a
  \<^verbatim>\<open>ReferenceObject\<close> is a \<open>ref_or\<close>. Literal values (examples, defaults, enumeration
  members) are JSON values; their numbers are integers here, which is all the compiler
  looks at (it tests a number for being zero only).
\<close>

datatype json =
    JNull
  | JBool bool
  | JNum int
  | JStr string
  | JArr "json list"
  | JObj "(string \<times> json) list"

datatype 'a ref_or = Ref string | Val 'a

datatype schema = Schema
  (s_type: "string option")
  (s_description: "string option")
  (s_enum: "json list option")
  (s_properties: "(string \<times> schema ref_or) list option")
  (s_items: "schema ref_or option")
  (s_required: "string list option")

record mediaType =
  mt_schema :: "schema ref_or option"

record parameter =
  p_name :: string
  p_in :: string
  p_required :: "bool option"
  p_description :: "string option"
  p_example :: "json option"
  p_schema :: "schema ref_or option"
  p_content :: "(string \<times> mediaType) list option"
  p_style :: "string option"
  p_explode :: "bool option"

record requestBody =
  rb_content :: "(string \<times> mediaType) list option"
  rb_required :: "bool option"

record operation =
  op_tags :: "string list option"
  op_parameters :: "parameter ref_or list option"
  op_requestBody :: "requestBody ref_or option"

text \<open>
  A path item: its path-scoped parameters and its other own entries in enumeration
  order. The walker looks at the value of an entry only under an HTTP method key, where
  it is an operation.
\<close>

record pathItem =
  pi_parameters :: "parameter ref_or list option"
  pi_entries :: "(string \<times> operation) list"

section \<open>The document walker\<close>

text \<open>\<^verbatim>\<open>Object.values(OpenAPIV3.HttpMethods)\<close> of the openapi-types package.\<close>

definition HttpMethods :: "string list" where
  "HttpMethods =
     [''get'', ''put'', ''post'', ''delete'', ''options'', ''head'', ''patch'', ''trace'']"

text \<open>The routing context handed to the visitor; its \<^verbatim>\<open>path\<close> member is a reference
  to the path item being walked and is not copied here.\<close>

record operationContext =
  ctx_pattern :: string
  ctx_method :: string

text \<open>The callback of \<^verbatim>\<open>operationParameters.map\<close>: \<^verbatim>\<open>null\<close> for a reference, the name
  otherwise.\<close>

definition paramNameOrNull :: "parameter ref_or \<Rightarrow> string option" where
  "paramNameOrNull p = (case p of Ref r \<Rightarrow> None | Val q \<Rightarrow> Some (p_name q))"

text \<open>JavaScript's \<^verbatim>\<open>Boolean\<close> on a value that is \<^verbatim>\<open>null\<close> or a string: the empty
  string is falsy as \<^verbatim>\<open>null\<close> is.\<close>

definition Boolean_name :: "string option \<Rightarrow> bool" where
  "Boolean_name v = (case v of None \<Rightarrow> False | Some s \<Rightarrow> s \<noteq> [])"

definition operationParamNames :: "parameter ref_or list \<Rightarrow> string option set" where
  "operationParamNames operationParameters =
     set (filter Boolean_name (map paramNameOrNull operationParameters))"

definition keepPathLevel :: "string option set \<Rightarrow> parameter ref_or \<Rightarrow> bool" where
  "keepPathLevel names p =
     (case p of Ref r \<Rightarrow> True | Val q \<Rightarrow> Some (p_name q) \<notin> names)"

definition mergedParameters ::
  "parameter ref_or list \<Rightarrow> parameter ref_or list \<Rightarrow> parameter ref_or list" where
  "mergedParameters pathLevelParameters operationParameters =
     filter (keepPathLevel (operationParamNames operationParameters)) pathLevelParameters
       @ operationParameters"

text \<open>\<^verbatim>\<open>x || []\<close> on an optional list.\<close>

definition orEmpty :: "'a list option \<Rightarrow> 'a list" where
  "orEmpty xs = (case xs of None \<Rightarrow> [] | Some ys \<Rightarrow> ys)"

text \<open>The tag normalisation of \<^verbatim>\<open>walkPaths\<close>, done for every entry under a method key.\<close>

definition defaultTags :: "operation \<Rightarrow> operation" where
  "defaultTags operation =
     (case op_tags operation of
        None \<Rightarrow> operation\<lparr>op_tags := Some [''default'']\<rparr>
      | Some [] \<Rightarrow> operation\<lparr>op_tags := Some [''default'']\<rparr>
      | Some (t # ts) \<Rightarrow> operation)"

text \<open>The parameter merge, done only when the visitor has \<^verbatim>\<open>visitOperation\<close> and the
  path item has at least one path-scoped parameter.\<close>

definition mergeOperation :: "parameter ref_or list \<Rightarrow> operation \<Rightarrow> operation" where
  "mergeOperation pathLevelParameters operation =
     (if length pathLevelParameters > 0
      then operation\<lparr>op_parameters :=
             Some (mergedParameters pathLevelParameters (orEmpty (op_parameters operation)))\<rparr>
      else operation)"

text \<open>One turn of the inner loop of \<^verbatim>\<open>walkPaths\<close>: the entry as the walker leaves it and
  the calls of \<^verbatim>\<open>visitor.visitOperation\<close> it makes.\<close>

definition walkEntry ::
  "bool \<Rightarrow> string \<Rightarrow> parameter ref_or list \<Rightarrow> string \<times> operation
     \<Rightarrow> (string \<times> operation) \<times> (operation \<times> operationContext) list" where
  "walkEntry hasVisitOperation path pathLevelParameters entry =
     (let method = fst entry; operation = snd entry in
      if method \<notin> set HttpMethods then (entry, [])
      else
        let tagged = defaultTags operation in
        if hasVisitOperation
        then
          (let merged = mergeOperation pathLevelParameters tagged
           in ((method, merged), [(merged, \<lparr>ctx_pattern = path, ctx_method = method\<rparr>)]))
        else ((method, tagged), []))"

fun walkEntries ::
  "bool \<Rightarrow> string \<Rightarrow> parameter ref_or list \<Rightarrow> (string \<times> operation) list
     \<Rightarrow> (string \<times> operation) list \<times> (operation \<times> operationContext) list" where
  "walkEntries hasVisitOperation path pathLevelParameters [] = ([], [])"
| "walkEntries hasVisitOperation path pathLevelParameters (entry # rest) =
     (let (entry', calls) = walkEntry hasVisitOperation path pathLevelParameters entry;
          (rest', calls') = walkEntries hasVisitOperation path pathLevelParameters rest
      in (entry' # rest', calls @ calls'))"

definition walkPathItem ::
  "bool \<Rightarrow> string \<Rightarrow> pathItem \<Rightarrow> pathItem \<times> (operation \<times> operationContext) list" where
  "walkPathItem hasVisitOperation path item =
     (let pathLevelParameters = orEmpty (pi_parameters item);
          (entries, calls) =
             walkEntries hasVisitOperation path pathLevelParameters (pi_entries item)
      in (item\<lparr>pi_entries := entries\<rparr>, calls))"

text \<open>\<^verbatim>\<open>walkPaths\<close> on a present path table: the table as mutated in place and the
  sequence of \<^verbatim>\<open>visitOperation\<close> calls.\<close>

fun walkPathTable ::
  "bool \<Rightarrow> (string \<times> pathItem) list
     \<Rightarrow> (string \<times> pathItem) list \<times> (operation \<times> operationContext) list" where
  "walkPathTable hasVisitOperation [] = ([], [])"
| "walkPathTable hasVisitOperation ((path, item) # rest) =
     (let (item', calls) = walkPathItem hasVisitOperation path item;
          (rest', calls') = walkPathTable hasVisitOperation rest
      in ((path, item') # rest', calls @ calls'))"

text \<open>A missing path table is skipped.\<close>

definition walkPaths ::
  "bool \<Rightarrow> (string \<times> pathItem) list option
     \<Rightarrow> (string \<times> pathItem) list option \<times> (operation \<times> operationContext) list" where
  "walkPaths hasVisitOperation paths =
     (case paths of
        None \<Rightarrow> (None, [])
      | Some table \<Rightarrow>
          (let (table', calls) = walkPathTable hasVisitOperation table
           in (Some table', calls)))"

section \<open>The property compiler: values, faults, collaborators\<close>

text \<open>
  \<^verbatim>\<open>src/n8n/SchemaToINodeProperties.ts\<close> holds two variants of the class
  \<^verbatim>\<open>N8NINodeProperties\<close>: the first (lines 1 to 433) and the second (from line 434). They
  share \<^verbatim>\<open>combine\<close>, \<^verbatim>\<open>findKey\<close>, \<^verbatim>\<open>fromParameter\<close>, \<^verbatim>\<open>fromArrayQueryParameter\<close>,
  \<^verbatim>\<open>getArrayItemType\<close>, \<^verbatim>\<open>getArrayQueryRouting\<close>, \<^verbatim>\<open>fromParameters\<close> and
  \<^verbatim>\<open>fromSchemaProperty\<close> word for word, and differ in \<^verbatim>\<open>fromSchema\<close>,
  \<^verbatim>\<open>getArrayItemDefault\<close> and \<^verbatim>\<open>fromRequestBody\<close>.
\<close>

datatype variant = VariantA | VariantB

text \<open>\<open>Error\<close> is a \<^verbatim>\<open>throw new Error(msg)\<close> of the source, \<open>TypeError\<close> the fault
  JavaScript raises by itself on \<^verbatim>\<open>Object.keys(undefined)\<close> or on reading a member of
  \<^verbatim>\<open>undefined\<close>.\<close>

datatype error = Error string | TypeError string

definition bindE :: "error + 'a \<Rightarrow> ('a \<Rightarrow> error + 'b) \<Rightarrow> error + 'b" where
  "bindE m f = (case m of Inl e \<Rightarrow> Inl e | Inr x \<Rightarrow> f x)"

text \<open>
  The collaborators the class is built on, none of them in the two source files: the
  reference resolver (\<^verbatim>\<open>RefResolver.resolve\<close>, at the three node types it is used at; the
  schema one also receives the \<^verbatim>\<open>undefined\<close> of a media type without schema, and any of
  them may raise), the example extractor (\<^verbatim>\<open>SchemaExample.extractExample\<close>),
  \<^verbatim>\<open>lodash.startCase\<close>, \<^verbatim>\<open>encodeURIComponent\<close> and \<^verbatim>\<open>JSON.stringify(v, null, 2)\<close>.
  A resolver that returns, returns a node: the test \<^verbatim>\<open>schema &&\<close> of \<^verbatim>\<open>fromParameter\<close>
  holds of it.
\<close>

record env =
  resolveSchema :: "schema ref_or option \<Rightarrow> error + schema"
  resolveParameter :: "parameter ref_or \<Rightarrow> error + parameter"
  resolveRequestBody :: "requestBody ref_or \<Rightarrow> error + requestBody"
  extractExample :: "schema \<Rightarrow> json option"
  startCase :: "json \<Rightarrow> string"
  encodeURIComponent :: "string \<Rightarrow> string"
  JSON_stringify :: "json \<Rightarrow> string"

subsection \<open>Field descriptors\<close>

record routingSend =
  send_type :: string
  send_property :: string
  send_value :: "string option"
  send_propertyInDotNotation :: "bool option"

record routingRequest =
  req_headers :: "(string \<times> string) list option"
  req_body :: "string option"

record routing =
  r_send :: "routingSend option"
  r_request :: "routingRequest option"

text \<open>The one sub-field of the \<^verbatim>\<open>fixedCollection\<close> of an array query parameter.\<close>

record itemField =
  if_displayName :: string
  if_name :: string
  if_type :: string
  if_default :: "json option"
  if_description :: string

datatype propertyOption =
    OptionValue (po_name: string) (po_value: json)
  | OptionCollection (pc_name: string) (pc_displayName: string) (pc_values: "itemField list")

text \<open>\<^verbatim>\<open>Partial<INodeProperties>\<close>: every member optional; \<open>f_typeOptions\<close> is the
  \<^verbatim>\<open>multipleValues\<close> flag of \<^verbatim>\<open>typeOptions\<close>.\<close>

record field =
  f_displayName :: "string option"
  f_name :: "string option"
  f_type :: "string option"
  f_description :: "string option"
  f_default :: "json option"
  f_options :: "propertyOption list option"
  f_required :: "bool option"
  f_typeOptions :: "bool option"
  f_routing :: "routing option"

definition emptyField :: field where
  "emptyField =
     \<lparr>f_displayName = None, f_name = None, f_type = None, f_description = None,
      f_default = None, f_options = None, f_required = None, f_typeOptions = None,
      f_routing = None\<rparr>"

subsection \<open>JavaScript helpers\<close>

text \<open>Truthiness of a JSON value and of an optional string.\<close>

fun truthy :: "json \<Rightarrow> bool" where
  "truthy JNull = False"
| "truthy (JBool b) = b"
| "truthy (JNum n) = (n \<noteq> 0)"
| "truthy (JStr s) = (s \<noteq> [])"
| "truthy (JArr xs) = True"
| "truthy (JObj kvs) = True"

definition truthyStr :: "string option \<Rightarrow> bool" where
  "truthyStr v = (case v of None \<Rightarrow> False | Some s \<Rightarrow> s \<noteq> [])"

text \<open>\<^verbatim>\<open>a || b\<close> on optional strings, and \<^verbatim>\<open>a || 'literal'\<close>.\<close>

definition orStr :: "string option \<Rightarrow> string option \<Rightarrow> string option" where
  "orStr a b = (if truthyStr a then a else b)"

definition orLit :: "string option \<Rightarrow> string \<Rightarrow> string" where
  "orLit a b = (case a of None \<Rightarrow> b | Some s \<Rightarrow> if s \<noteq> [] then s else b)"

text \<open>The first defined of two optional members, as \<^verbatim>\<open>lodash.defaults\<close> fills a member
  of the destination that is \<^verbatim>\<open>undefined\<close>.\<close>

definition firstDefined :: "'a option \<Rightarrow> 'a option \<Rightarrow> 'a option" where
  "firstDefined a b = (case a of None \<Rightarrow> b | Some x \<Rightarrow> Some x)"

text \<open>\<^verbatim>\<open>name.replace(/\./g, "-")\<close>.\<close>

definition replaceDots :: "string \<Rightarrow> string" where
  "replaceDots s = map (\<lambda>c. if c = CHR ''.'' then CHR ''-'' else c) s"

text \<open>\<^verbatim>\<open>/application\/json.*/.test(key)\<close>: the pattern is not anchored, so it holds of a
  key that contains \<^verbatim>\<open>application/json\<close> anywhere.\<close>

fun jsonRegexp :: "string \<Rightarrow> bool" where
  "jsonRegexp [] = False"
| "jsonRegexp (c # cs) = (if prefix ''application/json'' (c # cs) then True else jsonRegexp cs)"

subsection \<open>\<^verbatim>\<open>combine\<close> and \<^verbatim>\<open>findKey\<close>\<close>

definition defaults :: "field \<Rightarrow> field \<Rightarrow> field" where
  "defaults dst src =
     \<lparr>f_displayName = firstDefined (f_displayName dst) (f_displayName src),
      f_name = firstDefined (f_name dst) (f_name src),
      f_type = firstDefined (f_type dst) (f_type src),
      f_description = firstDefined (f_description dst) (f_description src),
      f_default = firstDefined (f_default dst) (f_default src),
      f_options = firstDefined (f_options dst) (f_options src),
      f_required = firstDefined (f_required dst) (f_required src),
      f_typeOptions = firstDefined (f_typeOptions dst) (f_typeOptions src),
      f_routing = firstDefined (f_routing dst) (f_routing src)\<rparr>"

text \<open>\<^verbatim>\<open>if (!field.required) delete field.required\<close>.\<close>

definition dropFalseRequired :: "field \<Rightarrow> field" where
  "dropFalseRequired obj =
     (case f_required obj of
        Some True \<Rightarrow> obj
      | Some False \<Rightarrow> obj\<lparr>f_required := None\<rparr>
      | None \<Rightarrow> obj\<lparr>f_required := None\<rparr>)"

text \<open>\<^verbatim>\<open>combine(...sources)\<close>: \<^verbatim>\<open>lodash.defaults({}, ...sources)\<close>, then the falsy
  \<^verbatim>\<open>required\<close> is deleted. Deleting the members that are \<^verbatim>\<open>undefined\<close> changes nothing
  here, where such a member is \<open>None\<close> already.\<close>

definition combine :: "field list \<Rightarrow> field" where
  "combine sources = dropFalseRequired (foldl defaults emptyField sources)"

definition findKey :: "(string \<times> 'a) list option \<Rightarrow> (string \<Rightarrow> bool) \<Rightarrow> error + 'a option" where
  "findKey obj regexp =
     (case obj of
        None \<Rightarrow> Inl (TypeError ''Cannot convert undefined or null to object'')
      | Some kvs \<Rightarrow>
          (case find regexp (map fst kvs) of
             None \<Rightarrow> Inr None
           | Some key \<Rightarrow> Inr (if key \<noteq> [] then map_of kvs key else None)))"

section \<open>The schema compiler\<close>

text \<open>The enumeration override of \<^verbatim>\<open>fromSchema\<close>: one option per literal.\<close>

definition enumOptions :: "env \<Rightarrow> json list \<Rightarrow> propertyOption list" where
  "enumOptions env literals = map (\<lambda>value. OptionValue (startCase env value) value) literals"

text \<open>The \<^verbatim>\<open>switch (schema.type)\<close> of the first variant: the presentation type and the
  default after it. No case matches a type outside the seven, and \<^verbatim>\<open>type\<close> stays
  unassigned.\<close>

definition typeAndDefault_A ::
  "env \<Rightarrow> schema \<Rightarrow> json option \<Rightarrow> string option \<times> json option" where
  "typeAndDefault_A env schema defaultValue =
     (if s_type schema = Some ''boolean''
      then (Some ''boolean'',
            (case defaultValue of None \<Rightarrow> Some (JBool False) | Some d \<Rightarrow> Some d))
      else if s_type schema = Some ''string'' \<or> s_type schema = None
      then (Some ''string'', defaultValue)
      else if s_type schema = Some ''object''
      then (Some ''json'', map_option (\<lambda>d. JStr (JSON_stringify env d)) defaultValue)
      else if s_type schema = Some ''array''
      then (Some ''json'', map_option (\<lambda>d. JStr (JSON_stringify env d)) defaultValue)
      else if s_type schema = Some ''number'' \<or> s_type schema = Some ''integer''
      then (Some ''number'', defaultValue)
      else (None, defaultValue))"

text \<open>The body of \<^verbatim>\<open>fromSchema\<close> after the resolution, first variant.\<close>

definition schemaField_A :: "env \<Rightarrow> schema \<Rightarrow> field" where
  "schemaField_A env schema =
     (let defaultValue = extractExample env schema;
          td = typeAndDefault_A env schema defaultValue;
          field = emptyField\<lparr>f_type := fst td, f_description := s_description schema,
                              f_default := snd td\<rparr>
      in case s_enum schema of
           None \<Rightarrow> field
         | Some [] \<Rightarrow> field
         | Some (first # others) \<Rightarrow>
             field\<lparr>f_type := Some ''options'',
                   f_options := Some (enumOptions env (first # others)),
                   f_default := (case f_default field of
                                   None \<Rightarrow> Some first
                                 | Some d \<Rightarrow> Some d)\<rparr>)"

definition fromSchema_A :: "env \<Rightarrow> schema ref_or option \<Rightarrow> error + field" where
  "fromSchema_A env schema0 =
     bindE (resolveSchema env schema0) (\<lambda>schema. Inr (schemaField_A env schema))"

text \<open>The second variant always computes a concrete default in the \<^verbatim>\<open>switch\<close>, and its
  enumeration override keeps that default only when it is truthy.\<close>

definition typeAndDefault_B ::
  "env \<Rightarrow> schema \<Rightarrow> json option \<Rightarrow> string option \<times> json option" where
  "typeAndDefault_B env schema defaultValue =
     (if s_type schema = Some ''boolean''
      then (Some ''boolean'',
            (case defaultValue of None \<Rightarrow> Some (JBool True) | Some d \<Rightarrow> Some d))
      else if s_type schema = Some ''string'' \<or> s_type schema = None
      then (Some ''string'',
            (case defaultValue of None \<Rightarrow> Some (JStr []) | Some d \<Rightarrow> Some d))
      else if s_type schema = Some ''object''
      then (Some ''json'',
            (case defaultValue of
               None \<Rightarrow> Some (JStr ''{}'')
             | Some d \<Rightarrow> Some (JStr (JSON_stringify env d))))
      else if s_type schema = Some ''array''
      then (Some ''json'',
            (case defaultValue of
               None \<Rightarrow> Some (JStr ''[]'')
             | Some d \<Rightarrow> Some (JStr (JSON_stringify env d))))
      else if s_type schema = Some ''number'' \<or> s_type schema = Some ''integer''
      then (Some ''number'',
            (case defaultValue of None \<Rightarrow> Some (JNum 0) | Some d \<Rightarrow> Some d))
      else (None, defaultValue))"

definition schemaField_B :: "env \<Rightarrow> schema \<Rightarrow> field" where
  "schemaField_B env schema =
     (let defaultValue = extractExample env schema;
          td = typeAndDefault_B env schema defaultValue;
          field = emptyField\<lparr>f_type := fst td, f_default := snd td,
                              f_description := s_description schema\<rparr>
      in case s_enum schema of
           None \<Rightarrow> field
         | Some [] \<Rightarrow> field
         | Some (first # others) \<Rightarrow>
             field\<lparr>f_type := Some ''options'',
                   f_options := Some (enumOptions env (first # others)),
                   f_default := (case f_default field of
                                   None \<Rightarrow> Some first
                                 | Some d \<Rightarrow> if truthy d then Some d else Some first)\<rparr>)"

definition fromSchema_B :: "env \<Rightarrow> schema ref_or option \<Rightarrow> error + field" where
  "fromSchema_B env schema0 =
     bindE (resolveSchema env schema0) (\<lambda>schema. Inr (schemaField_B env schema))"

definition schemaField :: "variant \<Rightarrow> env \<Rightarrow> schema \<Rightarrow> field" where
  "schemaField v env schema =
     (case v of VariantA \<Rightarrow> schemaField_A env schema | VariantB \<Rightarrow> schemaField_B env schema)"

definition fromSchema :: "variant \<Rightarrow> env \<Rightarrow> schema ref_or option \<Rightarrow> error + field" where
  "fromSchema v env schema0 =
     (case v of VariantA \<Rightarrow> fromSchema_A env schema0 | VariantB \<Rightarrow> fromSchema_B env schema0)"

section \<open>The parameter compiler\<close>

definition getArrayItemType :: "schema \<Rightarrow> string" where
  "getArrayItemType itemsSchema =
     (if s_type itemsSchema = Some ''boolean'' then ''boolean''
      else if s_type itemsSchema = Some ''number'' \<or> s_type itemsSchema = Some ''integer''
      then ''number''
      else ''string'')"

definition getArrayItemDefault_A :: "env \<Rightarrow> schema \<Rightarrow> json option" where
  "getArrayItemDefault_A env itemsSchema =
     (case extractExample env itemsSchema of
        Some d \<Rightarrow> Some d
      | None \<Rightarrow> if s_type itemsSchema = Some ''boolean'' then Some (JBool False) else None)"

definition getArrayItemDefault_B :: "env \<Rightarrow> schema \<Rightarrow> json option" where
  "getArrayItemDefault_B env itemsSchema =
     (case extractExample env itemsSchema of
        Some d \<Rightarrow> Some d
      | None \<Rightarrow>
          if s_type itemsSchema = Some ''boolean'' then Some (JBool False)
          else if s_type itemsSchema = Some ''number'' \<or> s_type itemsSchema = Some ''integer''
          then Some (JNum 0)
          else Some (JStr []))"

definition getArrayItemDefault :: "variant \<Rightarrow> env \<Rightarrow> schema \<Rightarrow> json option" where
  "getArrayItemDefault v env itemsSchema =
     (case v of
        VariantA \<Rightarrow> getArrayItemDefault_A env itemsSchema
      | VariantB \<Rightarrow> getArrayItemDefault_B env itemsSchema)"

text \<open>The default of the collection when the example is a non-empty array:
  \<^verbatim>\<open>{items: defaultValue.map(val => ({value: val}))}\<close>, else \<^verbatim>\<open>{}\<close>.\<close>

definition collectionDefault :: "json option \<Rightarrow> json" where
  "collectionDefault defaultValue =
     (case defaultValue of
        Some (JArr (x # xs)) \<Rightarrow>
          JObj [(''items'', JArr (map (\<lambda>val. JObj [(''value'', val)]) (x # xs)))]
      | _ \<Rightarrow> JObj [])"

definition fromArrayQueryParameter ::
  "variant \<Rightarrow> env \<Rightarrow> schema \<Rightarrow> parameter \<Rightarrow> error + field" where
  "fromArrayQueryParameter v env schema parameter =
     (if s_type schema = Some ''array''
      then
        (case s_items schema of
           None \<Rightarrow> Inl (Error ''fromArrayQueryParameter called with non-array schema'')
         | Some items \<Rightarrow>
             bindE (resolveSchema env (Some items)) (\<lambda>itemsSchema.
               let defaultValue = extractExample env schema
               in Inr (emptyField
                   \<lparr>f_type := Some ''fixedCollection'',
                    f_default := Some (collectionDefault defaultValue),
                    f_description := orStr (s_description schema) (p_description parameter),
                    f_typeOptions := Some True,
                    f_options := Some
                      [OptionCollection ''items'' ''Items''
                         [\<lparr>if_displayName = ''Value'',
                           if_name = ''value'',
                           if_type = getArrayItemType itemsSchema,
                           if_default = getArrayItemDefault v env itemsSchema,
                           if_description =
                             orLit (s_description itemsSchema)
                               (''Item value ('' @ orLit (s_type itemsSchema) ''any'' @ '')'')\<rparr>]]\<rparr>)))
      else Inl (Error ''fromArrayQueryParameter called with non-array schema''))"

definition repeatedValue :: string where
  "repeatedValue = ''={{ $value.items ? $value.items.map(item => item.value) : [] }}''"

definition joinedValue :: string where
  "joinedValue =
     ''={{ $value.items ? $value.items.map(item => item.value).join(\",\") : \"\" }}''"

definition querySend :: "string \<Rightarrow> string \<Rightarrow> routing" where
  "querySend property value =
     \<lparr>r_send = Some \<lparr>send_type = ''query'', send_property = property,
                      send_value = Some value, send_propertyInDotNotation = Some False\<rparr>,
      r_request = None\<rparr>"

definition getArrayQueryRouting :: "parameter \<Rightarrow> schema \<Rightarrow> routing" where
  "getArrayQueryRouting parameter schema =
     (let style = orLit (p_style parameter) ''form'';
          explode = (p_explode parameter \<noteq> Some False)
      in if style = ''form'' \<and> explode then querySend (p_name parameter) repeatedValue
         else if style = ''form'' \<and> \<not> explode then querySend (p_name parameter) joinedValue
         else querySend (p_name parameter) repeatedValue)"

text \<open>The first two statements of \<^verbatim>\<open>fromParameter\<close> after the resolution: the keys
  compiled from the attached schema, else from the schema of the JSON content entry.
  \<^verbatim>\<open>findKey\<close> raises on a missing content map, and reading \<^verbatim>\<open>content.schema\<close> raises
  when no key matches.\<close>

definition fieldSchemaKeys ::
  "variant \<Rightarrow> env \<Rightarrow> parameter \<Rightarrow> error + field option" where
  "fieldSchemaKeys v env parameter =
     bindE (case p_schema parameter of
              Some s \<Rightarrow> map_sum id Some (fromSchema v env (Some s))
            | None \<Rightarrow> Inr None) (\<lambda>keys.
       case keys of
         Some k \<Rightarrow> Inr (Some k)
       | None \<Rightarrow>
           bindE (findKey (p_content parameter) jsonRegexp) (\<lambda>content.
             case content of
               None \<Rightarrow> Inl (TypeError (''Cannot read properties of undefined (reading ''
                                      @ [CHR 0x27] @ ''schema'' @ [CHR 0x27] @ '')''))
             | Some c \<Rightarrow> map_sum id Some (fromSchema v env (mt_schema c))))"

text \<open>The argument of the second resolution:
  \<^verbatim>\<open>parameter.schema || (parameter.content && findKey(parameter.content, ...)?.schema)\<close>.\<close>

definition parameterSchema :: "parameter \<Rightarrow> error + schema ref_or option" where
  "parameterSchema parameter =
     (case p_schema parameter of
        Some s \<Rightarrow> Inr (Some s)
      | None \<Rightarrow>
          (case p_content parameter of
             None \<Rightarrow> Inr None
           | Some kvs \<Rightarrow>
               bindE (findKey (Some kvs) jsonRegexp) (\<lambda>content.
                 Inr (case content of None \<Rightarrow> None | Some c \<Rightarrow> mt_schema c))))"

definition fieldParameterKeys :: "env \<Rightarrow> parameter \<Rightarrow> field" where
  "fieldParameterKeys env parameter =
     emptyField
       \<lparr>f_displayName := Some (startCase env (JStr (p_name parameter))),
        f_name := Some (encodeURIComponent env (replaceDots (p_name parameter))),
        f_required := p_required parameter,
        f_description :=
          (if truthyStr (p_description parameter) then p_description parameter else None),
        f_default := p_example parameter\<rparr>"

definition valueExpr :: string where
  "valueExpr = ''={{ $value }}''"

definition parseExpr :: string where
  "parseExpr = ''={{ JSON.parse($value) }}''"

text \<open>The \<^verbatim>\<open>switch (parameter.in)\<close> of \<^verbatim>\<open>fromParameter\<close>.\<close>

definition locationRouting :: "parameter \<Rightarrow> schema \<Rightarrow> bool \<Rightarrow> field \<Rightarrow> error + field" where
  "locationRouting parameter schema isArrayQueryParam field =
     (if p_in parameter = ''query''
      then Inr (field\<lparr>f_routing := Some
                  (if isArrayQueryParam then getArrayQueryRouting parameter schema
                   else querySend (p_name parameter) valueExpr)\<rparr>)
      else if p_in parameter = ''path''
      then Inr (field\<lparr>f_required := Some True\<rparr>)
      else if p_in parameter = ''header''
      then Inr (field\<lparr>f_routing := Some
                  \<lparr>r_send = None,
                   r_request = Some \<lparr>req_headers = Some [(p_name parameter, valueExpr)],
                                     req_body = None\<rparr>\<rparr>\<rparr>)
      else Inl (Error (''Unknown parameter location '' @ [CHR 0x27] @ p_in parameter
                        @ [CHR 0x27])))"

definition fromParameter :: "variant \<Rightarrow> env \<Rightarrow> parameter ref_or \<Rightarrow> error + field" where
  "fromParameter v env parameter0 =
     bindE (resolveParameter env parameter0) (\<lambda>parameter.
     bindE (fieldSchemaKeys v env parameter) (\<lambda>keys.
       case keys of
         None \<Rightarrow> Inl (Error ''Parameter schema nor content not found'')
       | Some schemaKeys \<Rightarrow>
           bindE (parameterSchema parameter) (\<lambda>schemaArg.
           bindE (resolveSchema env schemaArg) (\<lambda>schema.
             let isArrayQueryParam =
                   (p_in parameter = ''query'' \<and> s_type schema = Some ''array'')
             in bindE (if isArrayQueryParam
                       then fromArrayQueryParameter v env schema parameter
                       else Inr schemaKeys) (\<lambda>schemaKeys'.
                  let field = combine [fieldParameterKeys env parameter, schemaKeys']
                  in bindE (locationRouting parameter schema isArrayQueryParam field)
                       (\<lambda>field'. Inr (dropFalseRequired field')))))))"

text \<open>The loop of \<^verbatim>\<open>fromParameters\<close>; the first fault ends it.\<close>

fun fromParameterList :: "variant \<Rightarrow> env \<Rightarrow> parameter ref_or list \<Rightarrow> error + field list" where
  "fromParameterList v env [] = Inr []"
| "fromParameterList v env (parameter # rest) =
     bindE (fromParameter v env parameter) (\<lambda>field.
     bindE (fromParameterList v env rest) (\<lambda>fields. Inr (field # fields)))"

definition fromParameters ::
  "variant \<Rightarrow> env \<Rightarrow> parameter ref_or list option \<Rightarrow> error + field list" where
  "fromParameters v env parameters =
     (case parameters of
        None \<Rightarrow> Inr []
      | Some ps \<Rightarrow> fromParameterList v env ps)"

definition fromSchemaProperty ::
  "variant \<Rightarrow> env \<Rightarrow> string \<Rightarrow> schema ref_or \<Rightarrow> error + field" where
  "fromSchemaProperty v env name property =
     bindE (fromSchema v env (Some property)) (\<lambda>schemaKeys.
       Inr (combine [emptyField\<lparr>f_displayName := Some (startCase env (JStr name)),
                                 f_name := Some (replaceDots name)\<rparr>,
                     schemaKeys]))"

section \<open>The request body compiler\<close>

definition bodySend :: "string \<Rightarrow> string \<Rightarrow> routing" where
  "bodySend key value =
     \<lparr>r_send = Some \<lparr>send_type = ''body'', send_property = key,
                      send_value = Some value, send_propertyInDotNotation = Some False\<rparr>,
      r_request = None\<rparr>"

definition requestBodyRouting :: "string \<Rightarrow> routing" where
  "requestBodyRouting value =
     \<lparr>r_send = None, r_request = Some \<lparr>req_headers = None, req_body = Some value\<rparr>\<rparr>"

text \<open>One turn of the loop over \<^verbatim>\<open>schema.properties\<close>, the same in both variants.\<close>

definition propertyField ::
  "variant \<Rightarrow> env \<Rightarrow> schema \<Rightarrow> string \<Rightarrow> schema ref_or \<Rightarrow> error + field" where
  "propertyField v env schema key property =
     bindE (fromSchemaProperty v env key property) (\<lambda>propertyKeys.
       let fieldDefaults =
             emptyField\<lparr>f_required :=
               (case s_required schema of
                  None \<Rightarrow> None
                | Some names \<Rightarrow> Some (key \<in> set names))\<rparr>;
           field = combine [fieldDefaults, propertyKeys]
       in Inr (if f_type field = Some ''json''
               then field\<lparr>f_routing := Some (bodySend key parseExpr)\<rparr>
               else field\<lparr>f_routing := Some (bodySend key valueExpr)\<rparr>))"

fun propertyFields ::
  "variant \<Rightarrow> env \<Rightarrow> schema \<Rightarrow> (string \<times> schema ref_or) list \<Rightarrow> error + field list" where
  "propertyFields v env schema [] = Inr []"
| "propertyFields v env schema ((key, property) # rest) =
     bindE (propertyField v env schema key property) (\<lambda>field.
     bindE (propertyFields v env schema rest) (\<lambda>fields. Inr (field # fields)))"

text \<open>The content entry of the first variant and the content type recorded with it:
  the first key the JSON pattern holds of, else the key \<^verbatim>\<open>*/*\<close>, else the first key.\<close>

definition selectContent_A ::
  "(string \<times> mediaType) list option \<Rightarrow> error + mediaType \<times> string" where
  "selectContent_A bodyContent =
     bindE (findKey bodyContent jsonRegexp) (\<lambda>found.
       let step1 = (found, ''application/json'');
           step2 = (case fst step1 of
                      Some c \<Rightarrow> step1
                    | None \<Rightarrow> (map_of (orEmpty bodyContent) ''*/*'', ''*/*''));
           step3 = (case fst step2 of
                      Some c \<Rightarrow> step2
                    | None \<Rightarrow>
                        (case map fst (orEmpty bodyContent) of
                           [] \<Rightarrow> step2
                         | contentType # others \<Rightarrow>
                             (map_of (orEmpty bodyContent) contentType, contentType)))
       in case fst step3 of
            None \<Rightarrow> Inl (Error ''No content found in request body'')
          | Some content \<Rightarrow> Inr (content, snd step3))"

text \<open>The second variant looks for the JSON pattern only.\<close>

definition noJsonContent :: error where
  "noJsonContent =
     Error (''No '' @ [CHR 0x27] @ ''/application'' @ [CHR 0x5C] @ ''/json.*/'' @ [CHR 0x27]
            @ '' content found'')"

definition selectContent_B ::
  "(string \<times> mediaType) list option \<Rightarrow> error + mediaType" where
  "selectContent_B bodyContent =
     bindE (findKey bodyContent jsonRegexp) (\<lambda>found.
       case found of
         None \<Rightarrow> Inl noJsonContent
       | Some content \<Rightarrow> Inr content)"

definition isScalarType :: "schema \<Rightarrow> bool" where
  "isScalarType schema =
     (s_type schema = Some ''string'' \<or> s_type schema = Some ''number''
      \<or> s_type schema = Some ''integer'' \<or> s_type schema = Some ''boolean'')"

definition unsupportedType :: "schema \<Rightarrow> error" where
  "unsupportedType schema =
     Error (''Request body schema type '' @ [CHR 0x27]
            @ (case s_type schema of None \<Rightarrow> ''undefined'' | Some t \<Rightarrow> t)
            @ [CHR 0x27] @ '' not supported'')"

definition binaryRouting :: routing where
  "binaryRouting =
     \<lparr>r_send = Some \<lparr>send_type = ''body'', send_property = ''$value'',
                      send_value = None, send_propertyInDotNotation = None\<rparr>,
      r_request = Some
        \<lparr>req_headers = Some
           [(''Content-Type'', ''={{ $binary[$parameter[\"body\"]].mimeType }}'')],
         req_body = None\<rparr>\<rparr>"

definition scalarBody_A ::
  "env \<Rightarrow> requestBody \<Rightarrow> schema \<Rightarrow> string \<Rightarrow> error + field list" where
  "scalarBody_A env body schema contentType =
     bindE (fromSchema VariantA env (Some (Val schema))) (\<lambda>propertyKeys.
       let fieldDefaults =
             emptyField\<lparr>f_displayName := Some ''Body'',
                        f_name := Some ''body'',
                        f_required := rb_required body,
                        f_description :=
                          Some (orLit (s_description schema) ''Request body content'')\<rparr>;
           field = combine [fieldDefaults, propertyKeys]
       in Inr [if contentType = ''*/*'' \<and> s_type schema = Some ''string''
               then field\<lparr>f_type := Some ''string'',
                          f_displayName := Some ''Binary Property'',
                          f_default := Some (JStr ''data''),
                          f_routing := Some binaryRouting,
                          f_description := Some
                            ''Name of the binary property containing the file to upload''\<rparr>
               else field\<lparr>f_routing := Some (requestBodyRouting valueExpr)\<rparr>])"

text \<open>The array branch: the first variant takes \<^verbatim>\<open>required\<close> from the body, the second
  from \<^verbatim>\<open>!!schema.required\<close>.\<close>

definition arrayBody ::
  "variant \<Rightarrow> env \<Rightarrow> bool option \<Rightarrow> schema ref_or \<Rightarrow> error + field" where
  "arrayBody v env required items =
     bindE (resolveSchema env (Some items)) (\<lambda>innerSchema.
     bindE (fromSchemaProperty v env ''body'' (Val innerSchema)) (\<lambda>propertyKeys.
       let field = combine [emptyField\<lparr>f_required := required\<rparr>, propertyKeys]
       in Inr (field\<lparr>f_routing := Some (requestBodyRouting parseExpr)\<rparr>)))"

definition compileBody_A ::
  "env \<Rightarrow> requestBody \<Rightarrow> schema \<Rightarrow> string \<Rightarrow> error + field list" where
  "compileBody_A env body schema contentType =
     (if s_properties schema = None \<and> isScalarType schema
      then scalarBody_A env body schema contentType
      else
        (case (if s_type schema = Some ''array'' then s_items schema else None) of
           Some items \<Rightarrow>
             bindE (arrayBody VariantA env (rb_required body) items) (\<lambda>field. Inr [field])
         | None \<Rightarrow>
             if s_properties schema = None \<and> s_type schema \<noteq> Some ''object''
             then Inl (unsupportedType schema)
             else propertyFields VariantA env schema (orEmpty (s_properties schema))))"

definition fromRequestBody_A :: "env \<Rightarrow> requestBody ref_or option \<Rightarrow> error + field list" where
  "fromRequestBody_A env body0 =
     (case body0 of
        None \<Rightarrow> Inr []
      | Some b \<Rightarrow>
          bindE (resolveRequestBody env b) (\<lambda>body.
          bindE (selectContent_A (rb_content body)) (\<lambda>selected.
          bindE (resolveSchema env (mt_schema (fst selected))) (\<lambda>schema.
            compileBody_A env body schema (snd selected)))))"

definition compileBody_B :: "env \<Rightarrow> schema \<Rightarrow> error + field list" where
  "compileBody_B env schema =
     (if s_properties schema = None \<and> s_type schema \<noteq> Some ''object''
         \<and> s_type schema \<noteq> Some ''array''
      then Inl (unsupportedType schema)
      else
        bindE (case (if s_type schema = Some ''array'' then s_items schema else None) of
                 Some items \<Rightarrow>
                   bindE (arrayBody VariantB env (Some (s_required schema \<noteq> None)) items)
                     (\<lambda>field. Inr [field])
               | None \<Rightarrow> Inr []) (\<lambda>fields.
        bindE (propertyFields VariantB env schema (orEmpty (s_properties schema)))
          (\<lambda>fields'. Inr (fields @ fields'))))"

definition fromRequestBody_B :: "env \<Rightarrow> requestBody ref_or option \<Rightarrow> error + field list" where
  "fromRequestBody_B env body0 =
     (case body0 of
        None \<Rightarrow> Inr []
      | Some b \<Rightarrow>
          bindE (resolveRequestBody env b) (\<lambda>body.
          bindE (selectContent_B (rb_content body)) (\<lambda>content.
          bindE (resolveSchema env (mt_schema content)) (\<lambda>schema.
            compileBody_B env schema))))"

definition fromRequestBody ::
  "variant \<Rightarrow> env \<Rightarrow> requestBody ref_or option \<Rightarrow> error + field list" where
  "fromRequestBody v env body0 =
     (case v of
        VariantA \<Rightarrow> fromRequestBody_A env body0
      | VariantB \<Rightarrow> fromRequestBody_B env body0)"

section \<open>A test environment\<close>

text \<open>
  Stand-ins for the collaborators, for running the compiler on documents without
  references and without examples: the resolver returns a concrete node as it is and
  raises on anything else, no schema has an example (so \<^verbatim>\<open>JSON.stringify\<close> is never
  reached), \<^verbatim>\<open>encodeURIComponent\<close> is taken on names of unreserved characters, which it
  leaves alone, and \<^verbatim>\<open>startCase\<close> is taken on strings made of words of lower-case ASCII
  letters with separators that are neither letters nor digits between them, where it
  upper-cases the first letter of each word and joins the words with single spaces. On
  other values the stand-in is not \<^verbatim>\<open>lodash.startCase\<close>, which also splits at a change
  of case and between letters and digits and which prints a literal that is not a string;
  no statement below uses it there.
\<close>

definition isWordChar :: "char \<Rightarrow> bool" where
  "isWordChar c =
     (c \<in> set ''abcdefghijklmnopqrstuvwxyzABCDEFGHIJKLMNOPQRSTUVWXYZ0123456789'')"

definition upperChar :: "char \<Rightarrow> char" where
  "upperChar c =
     (case map_of (zip ''abcdefghijklmnopqrstuvwxyz'' ''ABCDEFGHIJKLMNOPQRSTUVWXYZ'') c of
        None \<Rightarrow> c
      | Some u \<Rightarrow> u)"

fun splitWords :: "string \<Rightarrow> string \<Rightarrow> string list" where
  "splitWords word [] = (if word = [] then [] else [word])"
| "splitWords word (c # cs) =
     (if isWordChar c then splitWords (word @ [c]) cs
      else if word = [] then splitWords [] cs
      else word # splitWords [] cs)"

definition upperFirst :: "string \<Rightarrow> string" where
  "upperFirst w = (case w of [] \<Rightarrow> [] | c # cs \<Rightarrow> upperChar c # cs)"

fun joinWords :: "string list \<Rightarrow> string" where
  "joinWords [] = []"
| "joinWords [w] = w"
| "joinWords (w # w' # ws) = w @ '' '' @ joinWords (w' # ws)"

definition startCaseAscii :: "json \<Rightarrow> string" where
  "startCaseAscii value =
     (case value of JStr s \<Rightarrow> joinWords (map upperFirst (splitWords [] s)) | _ \<Rightarrow> [])"

definition testEnv :: env where
  "testEnv =
     \<lparr>resolveSchema =
        (\<lambda>node. case node of
                  Some (Val schema) \<Rightarrow> Inr schema
                | Some (Ref r) \<Rightarrow> Inl (Error (''unresolved reference '' @ r))
                | None \<Rightarrow> Inl (TypeError ''cannot resolve undefined'')),
      resolveParameter =
        (\<lambda>node. case node of
                  Val parameter \<Rightarrow> Inr parameter
                | Ref r \<Rightarrow> Inl (Error (''unresolved reference '' @ r))),
      resolveRequestBody =
        (\<lambda>node. case node of
                  Val body \<Rightarrow> Inr body
                | Ref r \<Rightarrow> Inl (Error (''unresolved reference '' @ r))),
      extractExample = (\<lambda>schema. None),
      startCase = startCaseAscii,
      encodeURIComponent = (\<lambda>s. s),
      JSON_stringify = (\<lambda>value. [])\<rparr>"

section \<open>Specification-level definitions and sample documents\<close>

text \<open>The operation and the key at position \<open>j\<close> of the path item at position \<open>i\<close>.\<close>

definition operationAt :: "(string \<times> pathItem) list \<Rightarrow> nat \<Rightarrow> nat \<Rightarrow> operation" where
  "operationAt table i j = snd (pi_entries (snd (table ! i)) ! j)"

definition methodAt :: "(string \<times> pathItem) list \<Rightarrow> nat \<Rightarrow> nat \<Rightarrow> string" where
  "methodAt table i j = fst (pi_entries (snd (table ! i)) ! j)"

text \<open>The merge in the words of the specification: the path-scoped parameters whose name
  is not the name of a concrete operation-scoped parameter, references always kept,
  followed by all operation-scoped parameters.\<close>

definition concreteNames :: "parameter ref_or list \<Rightarrow> string set" where
  "concreteNames operationScoped =
     set (concat (map (\<lambda>p. case p of Ref r \<Rightarrow> [] | Val q \<Rightarrow> [p_name q]) operationScoped))"

definition specMergedParameters ::
  "parameter ref_or list \<Rightarrow> parameter ref_or list \<Rightarrow> parameter ref_or list" where
  "specMergedParameters pathScoped operationScoped =
     filter (\<lambda>p. case p of Ref r \<Rightarrow> True | Val q \<Rightarrow> p_name q \<notin> concreteNames operationScoped)
       pathScoped
     @ operationScoped"

definition plainParameter :: "string \<Rightarrow> string \<Rightarrow> parameter" where
  "plainParameter name location =
     \<lparr>p_name = name, p_in = location, p_required = None, p_description = None,
      p_example = None, p_schema = None, p_content = None, p_style = None,
      p_explode = None\<rparr>"

definition plainSchema :: "string \<Rightarrow> schema" where
  "plainSchema t = Schema (Some t) None None None None None"

text \<open>A path item whose path-scoped parameter and whose operation-scoped parameter both
  have the empty name.\<close>

definition pathLevelEmpty :: parameter where
  "pathLevelEmpty = (plainParameter [] ''query'')\<lparr>p_description := Some ''path level''\<rparr>"

definition operationLevelEmpty :: parameter where
  "operationLevelEmpty = (plainParameter [] ''query'')\<lparr>p_required := Some True\<rparr>"

definition emptyNameTable :: "(string \<times> pathItem) list" where
  "emptyNameTable =
     [(''/items'',
       \<lparr>pi_parameters = Some [Val pathLevelEmpty],
        pi_entries =
          [(''get'', \<lparr>op_tags = None, op_parameters = Some [Val operationLevelEmpty],
                      op_requestBody = None\<rparr>)]\<rparr>)]"

text \<open>A path item with an untagged and a tagged operation and a description.\<close>

definition tagTable :: "(string \<times> pathItem) list" where
  "tagTable =
     [(''/pets'',
       \<lparr>pi_parameters = None,
        pi_entries =
          [(''get'', \<lparr>op_tags = None, op_parameters = None, op_requestBody = None\<rparr>),
           (''description'', \<lparr>op_tags = None, op_parameters = None, op_requestBody = None\<rparr>),
           (''post'', \<lparr>op_tags = Some [''pets''], op_parameters = None,
                       op_requestBody = None\<rparr>)]\<rparr>)]"

definition pathParameter :: parameter where
  "pathParameter =
     (plainParameter ''id'' ''path'')
       \<lparr>p_required := Some False, p_schema := Some (Val (plainSchema ''string''))\<rparr>"

text \<open>The default a boolean schema without example gets in each variant.\<close>

definition booleanDefault :: "variant \<Rightarrow> json" where
  "booleanDefault v = (case v of VariantA \<Rightarrow> JBool False | VariantB \<Rightarrow> JBool True)"

text \<open>A schema declares a non-empty enumeration.\<close>

definition hasLiterals :: "schema \<Rightarrow> bool" where
  "hasLiterals schema =
     (case s_enum schema of None \<Rightarrow> False | Some [] \<Rightarrow> False | Some (l # ls) \<Rightarrow> True)"


text \<open>The default \<^verbatim>\<open>fromSchema\<close> has computed when it reaches the enumeration override,
  and whether the override keeps it: the first variant keeps a default that is present,
  the second one that is truthy.\<close>

definition defaultBeforeOverride :: "variant \<Rightarrow> env \<Rightarrow> schema \<Rightarrow> json option" where
  "defaultBeforeOverride v env schema =
     (case v of
        VariantA \<Rightarrow> snd (typeAndDefault_A env schema (extractExample env schema))
      | VariantB \<Rightarrow> snd (typeAndDefault_B env schema (extractExample env schema)))"

definition keptDefault :: "variant \<Rightarrow> json option \<Rightarrow> bool" where
  "keptDefault v d =
     (case d of
        None \<Rightarrow> False
      | Some x \<Rightarrow> (case v of VariantA \<Rightarrow> True | VariantB \<Rightarrow> truthy x))"

text \<open>The first entry of an object whose key has a property.\<close>

definition firstWhere :: "(string \<Rightarrow> bool) \<Rightarrow> (string \<times> 'a) list \<Rightarrow> (string \<times> 'a) option" where
  "firstWhere P entries =
     (case filter (\<lambda>kv. P (fst kv)) entries of [] \<Rightarrow> None | kv # rest \<Rightarrow> Some kv)"

text \<open>The schema a parameter declares: the attached one, else the schema member of the
  first content entry with a JSON-compatible media type (which may be missing), else
  nothing.\<close>

definition schemaSource :: "parameter \<Rightarrow> schema ref_or option option" where
  "schemaSource parameter =
     (case p_schema parameter of
        Some s \<Rightarrow> Some (Some s)
      | None \<Rightarrow>
          (case p_content parameter of
             None \<Rightarrow> None
           | Some entries \<Rightarrow>
               map_option (\<lambda>kv. mt_schema (snd kv)) (firstWhere jsonRegexp entries)))"

text \<open>The content-type resolution in the words of the specification: the first entry in
  document order whose media type is JSON-compatible, else the wildcard entry, else the
  first entry; the second variant knows the first of the three only.\<close>

definition specContent_A :: "(string \<times> mediaType) list \<Rightarrow> (mediaType \<times> string) option" where
  "specContent_A entries =
     (case firstWhere jsonRegexp entries of
        Some kv \<Rightarrow> Some (snd kv, ''application/json'')
      | None \<Rightarrow>
          (case firstWhere (\<lambda>k. k = ''*/*'') entries of
             Some kv \<Rightarrow> Some (snd kv, ''*/*'')
           | None \<Rightarrow>
               (case entries of
                  [] \<Rightarrow> None
                | kv # rest \<Rightarrow> Some (snd kv, fst kv))))"

definition specContent_B :: "(string \<times> mediaType) list \<Rightarrow> mediaType option" where
  "specContent_B entries = map_option snd (firstWhere jsonRegexp entries)"




subsection \<open>Sample parameters, schemas and bodies\<close>

definition arraySchema :: schema where
  "arraySchema =
     Schema (Some ''array'') None None None (Some (Val (plainSchema ''string''))) None"

definition tagsParameter :: parameter where
  "tagsParameter =
     (plainParameter ''tags'' ''query'')
       \<lparr>p_schema := Some (Val arraySchema), p_style := Some ''form'',
        p_explode := Some False\<rparr>"

definition textParameter :: parameter where
  "textParameter =
     (plainParameter ''filter'' ''query'')
       \<lparr>p_content :=
          Some [(''text/plain'', \<lparr>mt_schema = Some (Val (plainSchema ''string''))\<rparr>)]\<rparr>"

text \<open>The parameter \<open>tagsParameter\<close> with an array schema that has no item schema.\<close>

definition itemlessParameter :: parameter where
  "itemlessParameter =
     (plainParameter ''tags'' ''query'')
       \<lparr>p_schema := Some (Val (plainSchema ''array'')), p_style := Some ''form'',
        p_explode := Some False\<rparr>"

definition boolEnumSchema :: schema where
  "boolEnumSchema =
     Schema (Some ''boolean'') None (Some [JBool True, JBool False]) None None None"

definition enumSchema :: schema where
  "enumSchema =
     Schema (Some ''string'') None (Some [JStr ''a_b'', JStr ''c'']) None None None"

text \<open>The test environment with an extractor that finds the example \<^verbatim>\<open>false\<close>.\<close>

definition falseExampleEnv :: env where
  "falseExampleEnv = testEnv\<lparr>extractExample := (\<lambda>schema. Some (JBool False))\<rparr>"

definition objectBodySchema :: schema where
  "objectBodySchema =
     Schema (Some ''object'') None None
       (Some [(''a'', Val (plainSchema ''string'')), (''b'', Val (plainSchema ''object''))])
       None (Some [''a''])"


definition wildcardBody :: requestBody where
  "wildcardBody =
     \<lparr>rb_content = Some [(''*/*'', \<lparr>mt_schema = Some (Val objectBodySchema)\<rparr>)],
      rb_required = None\<rparr>"

definition emptyBody :: requestBody where
  "emptyBody = \<lparr>rb_content = Some [], rb_required = None\<rparr>"

section \<open>Properties of the walker\<close>

lemma walkEntries_fst:
  "fst (walkEntries v path plp es) = map (\<lambda>e. fst (walkEntry v path plp e)) es"
  by (induction es) (simp_all add: case_prod_unfold Let_def)

lemma walkPathTable_fst:
  "fst (walkPathTable v tbl) = map (\<lambda>(path, item). (path, fst (walkPathItem v path item))) tbl"
  by (induction tbl) (auto simp: case_prod_unfold Let_def)

lemma walkPathItem_entries:
  "pi_entries (fst (walkPathItem v path item)) =
     map (\<lambda>e. fst (walkEntry v path (orEmpty (pi_parameters item)) e)) (pi_entries item)"
  by (simp add: walkPathItem_def case_prod_unfold Let_def walkEntries_fst)

lemma walkPaths_Some:
  "walkPaths v (Some table) = (Some (fst (walkPathTable v table)), snd (walkPathTable v table))"
  by (simp add: walkPaths_def case_prod_unfold Let_def)

lemma operationAt_walk:
  assumes "i < length table" and "j < length (pi_entries (snd (table ! i)))"
  shows "operationAt (fst (walkPathTable v table)) i j =
           snd (fst (walkEntry v (fst (table ! i)) (orEmpty (pi_parameters (snd (table ! i))))
                  (pi_entries (snd (table ! i)) ! j)))"
  using assms
  by (simp add: operationAt_def walkPathTable_fst walkPathItem_entries case_prod_unfold)

lemma op_tags_defaultTags:
  "op_tags (defaultTags operation) =
     (case op_tags operation of
        None \<Rightarrow> Some [''default'']
      | Some [] \<Rightarrow> Some [''default'']
      | Some (t # ts) \<Rightarrow> Some (t # ts))"
  by (simp add: defaultTags_def split: option.splits list.splits)

lemma op_parameters_defaultTags: "op_parameters (defaultTags operation) = op_parameters operation"
  by (simp add: defaultTags_def split: option.splits list.splits)

lemma op_tags_mergeOperation: "op_tags (mergeOperation plp operation) = op_tags operation"
  by (simp add: mergeOperation_def)

lemma walkEntry_method:
  "fst e \<in> set HttpMethods \<Longrightarrow>
     snd (fst (walkEntry v path plp e)) =
       (if v then mergeOperation plp (defaultTags (snd e)) else defaultTags (snd e))"
  by (simp add: walkEntry_def Let_def)

lemmas walker_defs =
  walkPaths_def walkPathItem_def walkEntry_def HttpMethods_def defaultTags_def
  mergeOperation_def mergedParameters_def operationParamNames_def paramNameOrNull_def
  Boolean_name_def keepPathLevel_def orEmpty_def operationAt_def methodAt_def Let_def
  plainParameter_def

text \<open>
  C7. Every operation under an HTTP method key leaves the walk with the tag list
  \<open>["default"]\<close> when it came without tags or with an empty tag list, and with its own
  tag list otherwise, whether or not the visitor has an operation callback.
\<close>

theorem walker_tag_defaulting:
  assumes "i < length table" and "j < length (pi_entries (snd (table ! i)))"
    and "methodAt table i j \<in> set HttpMethods"
    and "fst (walkPaths hasVisitOperation (Some table)) = Some table'"
  shows "op_tags (operationAt table' i j) =
           (case op_tags (operationAt table i j) of
              None \<Rightarrow> Some [''default'']
            | Some [] \<Rightarrow> Some [''default'']
            | Some (t # ts) \<Rightarrow> Some (t # ts))"
proof -
  have t': "table' = fst (walkPathTable hasVisitOperation table)"
    using assms(4) by (simp add: walkPaths_Some)
  have m: "fst (pi_entries (snd (table ! i)) ! j) \<in> set HttpMethods"
    using assms(3) by (simp add: methodAt_def)
  show ?thesis
    unfolding t' operationAt_walk [OF assms(1) assms(2)] walkEntry_method [OF m]
    by (simp add: op_tags_mergeOperation op_tags_defaultTags operationAt_def)
qed

theorem walker_tag_defaulting_witness:
  "0 < length tagTable \<and> 0 < length (pi_entries (snd (tagTable ! 0)))
   \<and> methodAt tagTable 0 0 \<in> set HttpMethods
   \<and> fst (walkPaths False (Some tagTable)) =
        Some [(''/pets'',
          \<lparr>pi_parameters = None,
           pi_entries =
             [(''get'', \<lparr>op_tags = Some [''default''], op_parameters = None,
                         op_requestBody = None\<rparr>),
              (''description'', \<lparr>op_tags = None, op_parameters = None,
                                 op_requestBody = None\<rparr>),
              (''post'', \<lparr>op_tags = Some [''pets''], op_parameters = None,
                          op_requestBody = None\<rparr>)]\<rparr>)]
   \<and> op_tags (operationAt tagTable 0 0) = None
   \<and> op_tags (operationAt
        [(''/pets'',
          \<lparr>pi_parameters = None,
           pi_entries =
             [(''get'', \<lparr>op_tags = Some [''default''], op_parameters = None,
                         op_requestBody = None\<rparr>),
              (''description'', \<lparr>op_tags = None, op_parameters = None,
                                 op_requestBody = None\<rparr>),
              (''post'', \<lparr>op_tags = Some [''pets''], op_parameters = None,
                          op_requestBody = None\<rparr>)]\<rparr>)] 0 0) = Some [''default'']"
proof -
  have h1: "0 < length tagTable" by (simp add: tagTable_def)
  have h2: "0 < length (pi_entries (snd (tagTable ! 0)))" by (simp add: tagTable_def)
  have h3: "methodAt tagTable 0 0 \<in> set HttpMethods"
    by (simp add: tagTable_def methodAt_def HttpMethods_def)
  have h4: "fst (walkPaths False (Some tagTable)) =
        Some [(''/pets'',
          \<lparr>pi_parameters = None,
           pi_entries =
             [(''get'', \<lparr>op_tags = Some [''default''], op_parameters = None,
                         op_requestBody = None\<rparr>),
              (''description'', \<lparr>op_tags = None, op_parameters = None,
                                 op_requestBody = None\<rparr>),
              (''post'', \<lparr>op_tags = Some [''pets''], op_parameters = None,
                          op_requestBody = None\<rparr>)]\<rparr>)]"
    by (simp add: walker_defs tagTable_def)
  have h5: "op_tags (operationAt tagTable 0 0) = None"
    by (simp add: tagTable_def operationAt_def)
  show ?thesis
    using h1 h2 h3 h4 h5 walker_tag_defaulting [OF h1 h2 h3 h4] by simp
qed

text \<open>
  The merge of the walker in general: under a path item with at least one path-scoped
  parameter, the operation handed to the visitor carries the merged list, which is the
  merge in the words of the specification as long as no concrete operation-scoped
  parameter has the empty name.
\<close>

lemma concreteNames_iff:
  "(Some n \<in> operationParamNames ops) = (n \<noteq> [] \<and> n \<in> concreteNames ops)"
  by (induction ops)
     (auto simp: operationParamNames_def concreteNames_def paramNameOrNull_def Boolean_name_def
           split: ref_or.splits)

lemma mergedParameters_spec:
  assumes "[] \<notin> concreteNames operationParameters"
  shows "mergedParameters pathLevelParameters operationParameters =
           specMergedParameters pathLevelParameters operationParameters"
proof -
  have "keepPathLevel (operationParamNames operationParameters) p =
          (case p of Ref r \<Rightarrow> True | Val q \<Rightarrow> p_name q \<notin> concreteNames operationParameters)" for p
    using assms by (cases p) (auto simp: keepPathLevel_def concreteNames_iff)
  then have "keepPathLevel (operationParamNames operationParameters) =
          (\<lambda>p. case p of Ref r \<Rightarrow> True | Val q \<Rightarrow> p_name q \<notin> concreteNames operationParameters)"
    by (intro ext)
  then show ?thesis
    by (simp add: mergedParameters_def specMergedParameters_def)
qed

lemma walker_merged_parameters:
  assumes "i < length table" and "j < length (pi_entries (snd (table ! i)))"
    and "methodAt table i j \<in> set HttpMethods"
    and "pi_parameters (snd (table ! i)) = Some pathLevelParameters"
    and "pathLevelParameters \<noteq> []"
  shows "op_parameters (operationAt (fst (walkPathTable True table)) i j) =
           Some (mergedParameters pathLevelParameters
                   (orEmpty (op_parameters (operationAt table i j))))"
proof -
  have m: "fst (pi_entries (snd (table ! i)) ! j) \<in> set HttpMethods"
    using assms(3) by (simp add: methodAt_def)
  show ?thesis
    unfolding operationAt_walk [OF assms(1) assms(2)] walkEntry_method [OF m]
    using assms(4,5)
    by (simp add: mergeOperation_def op_parameters_defaultTags operationAt_def orEmpty_def)
qed

lemma merge_same_name:
  "mergedParameters [Val (plainParameter ''x'' ''query'')]
      [Val ((plainParameter ''x'' ''query'')\<lparr>p_required := Some True\<rparr>)]
   = [Val ((plainParameter ''x'' ''query'')\<lparr>p_required := Some True\<rparr>)]"
  by (simp add: walker_defs)

text \<open>
  C1. The merge drops a path-scoped parameter only when its name is among the
  operation-scoped names that survive \<^verbatim>\<open>filter(Boolean)\<close>, and that filter removes the
  empty name together with the \<^verbatim>\<open>null\<close> of a reference. With a path-scoped and an
  operation-scoped parameter both named by the empty string, the operation handed to the
  visitor has two parameters of that name, the path-scoped one first, where the merge of
  the specification keeps the operation-scoped one alone.
\<close>

theorem walker_merge_empty_name:
  "snd (walkPaths True (Some emptyNameTable)) =
     [(\<lparr>op_tags = Some [''default''],
        op_parameters = Some [Val pathLevelEmpty, Val operationLevelEmpty],
        op_requestBody = None\<rparr>,
       \<lparr>ctx_pattern = ''/items'', ctx_method = ''get''\<rparr>)]
   \<and> map paramNameOrNull [Val pathLevelEmpty, Val operationLevelEmpty] = [Some [], Some []]
   \<and> specMergedParameters [Val pathLevelEmpty] [Val operationLevelEmpty]
       = [Val operationLevelEmpty]"
  by (simp add: walker_defs emptyNameTable_def pathLevelEmpty_def operationLevelEmpty_def
        specMergedParameters_def concreteNames_def)

section \<open>Properties of the compiler\<close>

lemma bindE_Inl [simp]: "bindE (Inl e) f = Inl e"
  by (simp add: bindE_def)

lemma bindE_Inr [simp]: "bindE (Inr x) f = f x"
  by (simp add: bindE_def)

lemma bindE_eq_Inr: "(bindE m f = Inr y) = (\<exists>x. m = Inr x \<and> f x = Inr y)"
  by (cases m) simp_all

lemma f_required_dropFalseRequired:
  "f_required (dropFalseRequired obj) = (if f_required obj = Some True then Some True else None)"
  by (auto simp: dropFalseRequired_def split: option.splits bool.splits)

lemma dropFalseRequired_other [simp]:
  "f_displayName (dropFalseRequired obj) = f_displayName obj"
  "f_name (dropFalseRequired obj) = f_name obj"
  "f_type (dropFalseRequired obj) = f_type obj"
  "f_description (dropFalseRequired obj) = f_description obj"
  "f_default (dropFalseRequired obj) = f_default obj"
  "f_options (dropFalseRequired obj) = f_options obj"
  "f_typeOptions (dropFalseRequired obj) = f_typeOptions obj"
  "f_routing (dropFalseRequired obj) = f_routing obj"
  by (simp_all add: dropFalseRequired_def split: option.splits bool.splits)

lemma firstDefined_simps [simp]:
  "firstDefined None b = b" "firstDefined (Some x) b = Some x" "firstDefined a None = a"
  by (simp_all add: firstDefined_def split: option.splits)

lemma combine_two: "combine [a, b] = dropFalseRequired (defaults a b)"
  by (cases a) (simp add: combine_def defaults_def emptyField_def)

lemma fromSchema_Inr:
  "(fromSchema v env s = Inr k) =
     (\<exists>schema. resolveSchema env s = Inr schema \<and> k = schemaField v env schema)"
  by (cases v)
     (auto simp: fromSchema_def fromSchema_A_def fromSchema_B_def schemaField_def bindE_eq_Inr)

lemma fromSchema_resolved:
  "resolveSchema env s = Inr schema \<Longrightarrow> fromSchema v env s = Inr (schemaField v env schema)"
  by (simp add: fromSchema_Inr)

lemma schemaField_required [simp]: "f_required (schemaField v env schema) = None"
  by (cases v)
     (simp_all add: schemaField_def schemaField_A_def schemaField_B_def Let_def emptyField_def
           split: option.split list.split)

lemma fromSchema_required: "fromSchema v env s = Inr k \<Longrightarrow> f_required k = None"
  by (auto simp: fromSchema_Inr)

lemma fromArrayQueryParameter_required:
  "fromArrayQueryParameter v env schema parameter = Inr k \<Longrightarrow> f_required k = None"
  by (auto simp: fromArrayQueryParameter_def bindE_eq_Inr Let_def emptyField_def
           split: option.splits if_splits)

lemma map_sum_Some_Inr: "(map_sum id Some m = Inr (Some k)) = (m = Inr k)"
  by (cases m) simp_all

lemma fieldSchemaKeys_Some:
  "fieldSchemaKeys v env parameter = Inr (Some k) \<Longrightarrow> \<exists>s. fromSchema v env s = Inr k"
  unfolding fieldSchemaKeys_def
  by (cases "p_schema parameter")
     (auto simp: bindE_eq_Inr map_sum_Some_Inr split: option.splits)

lemma fieldSchemaKeys_required:
  "fieldSchemaKeys v env parameter = Inr (Some k) \<Longrightarrow> f_required k = None"
  by (auto dest!: fieldSchemaKeys_Some fromSchema_required)

lemma locationRouting_required:
  "locationRouting parameter schema b field = Inr field' \<Longrightarrow>
     f_required field' = (if p_in parameter = ''path'' then Some True else f_required field)"
  by (auto simp: locationRouting_def split: if_splits)

lemma fromParameter_InrE:
  assumes "fromParameter v env parameter0 = Inr f"
  obtains parameter keys schemaArg schema keys' field' where
    "resolveParameter env parameter0 = Inr parameter"
    "fieldSchemaKeys v env parameter = Inr (Some keys)"
    "parameterSchema parameter = Inr schemaArg"
    "resolveSchema env schemaArg = Inr schema"
    "(if p_in parameter = ''query'' \<and> s_type schema = Some ''array''
      then fromArrayQueryParameter v env schema parameter else Inr keys) = Inr keys'"
    "locationRouting parameter schema (p_in parameter = ''query'' \<and> s_type schema = Some ''array'')
       (combine [fieldParameterKeys env parameter, keys']) = Inr field'"
    "f = dropFalseRequired field'"
  using assms
  by (auto simp: fromParameter_def bindE_eq_Inr Let_def split: option.splits)

lemma jsonRegexp_find:
  "findKey (Some kvs) jsonRegexp = Inr (map_option snd (firstWhere jsonRegexp kvs))"
proof (induction kvs)
  case Nil
  then show ?case by (simp add: findKey_def firstWhere_def)
next
  case (Cons kv kvs)
  show ?case
  proof (cases "jsonRegexp (fst kv)")
    case True
    then have "fst kv \<noteq> []" by auto
    with True show ?thesis by (simp add: findKey_def firstWhere_def)
  next
    case False
    have ne: "key \<noteq> fst kv" if "find jsonRegexp (map fst kvs) = Some key" for key
      using that False by (auto simp: find_Some_iff)
    show ?thesis
      using Cons False
      by (auto simp: findKey_def firstWhere_def ne split: option.splits list.splits prod.splits)
  qed
qed

lemmas eval_defs =
  fromParameter_def fieldSchemaKeys_def parameterSchema_def fieldParameterKeys_def
  locationRouting_def fromSchema_def fromSchema_A_def fromSchema_B_def schemaField_A_def
  schemaField_B_def typeAndDefault_A_def typeAndDefault_B_def combine_two defaults_def
  emptyField_def dropFalseRequired_def testEnv_def startCaseAscii_def upperFirst_def
  upperChar_def isWordChar_def replaceDots_def truthyStr_def plainParameter_def plainSchema_def
  findKey_def enumOptions_def Let_def

text \<open>
  C8. A field descriptor returned by \<^verbatim>\<open>fromParameter\<close>, in either variant, has the
  required flag exactly when the parameter is located in the path or declares
  \<^verbatim>\<open>required: true\<close>, and then the flag is \<^verbatim>\<open>true\<close>: the flag is never present with the
  value \<^verbatim>\<open>false\<close>, and for a path parameter it is present and \<^verbatim>\<open>true\<close> whatever the
  parameter declares.
\<close>

theorem fromParameter_required_flag:
  assumes "fromParameter v env parameter0 = Inr f"
    and "resolveParameter env parameter0 = Inr parameter"
  shows "f_required f =
           (if p_in parameter = ''path'' \<or> p_required parameter = Some True
            then Some True else None)
         \<and> f_required f \<noteq> Some False
         \<and> (p_in parameter = ''path'' \<longrightarrow> f_required f = Some True)"
proof -
  from assms(1) obtain parameter' keys schemaArg schema keys' field' where
    r: "resolveParameter env parameter0 = Inr parameter'"
    and k: "fieldSchemaKeys v env parameter' = Inr (Some keys)"
    and k': "(if p_in parameter' = ''query'' \<and> s_type schema = Some ''array''
      then fromArrayQueryParameter v env schema parameter' else Inr keys) = Inr keys'"
    and l: "locationRouting parameter' schema
              (p_in parameter' = ''query'' \<and> s_type schema = Some ''array'')
              (combine [fieldParameterKeys env parameter', keys']) = Inr field'"
    and f: "f = dropFalseRequired field'"
    by (rule fromParameter_InrE)
  from r assms(2) have p: "parameter' = parameter" by simp
  have "f_required keys' = None"
    using k k'
    by (auto split: if_splits dest: fieldSchemaKeys_required fromArrayQueryParameter_required)
  then have c: "f_required (combine [fieldParameterKeys env parameter, keys']) =
        (if p_required parameter = Some True then Some True else None)"
    by (simp add: combine_two f_required_dropFalseRequired defaults_def fieldParameterKeys_def
          emptyField_def)
  have 1: "f_required f =
           (if p_in parameter = ''path'' \<or> p_required parameter = Some True
            then Some True else None)"
    using locationRouting_required [OF l] c
    by (simp add: f p f_required_dropFalseRequired)
  then show ?thesis by simp
qed

theorem fromParameter_required_flag_witness:
  "fromParameter VariantA testEnv (Val pathParameter) =
     Inr \<lparr>f_displayName = Some ''Id'', f_name = Some ''id'', f_type = Some ''string'',
          f_description = None, f_default = None, f_options = None, f_required = Some True,
          f_typeOptions = None, f_routing = None\<rparr>
   \<and> resolveParameter testEnv (Val pathParameter) = Inr pathParameter
   \<and> p_in pathParameter = ''path'' \<and> p_required pathParameter = Some False"
proof -
  have h1: "fromParameter VariantA testEnv (Val pathParameter) =
     Inr \<lparr>f_displayName = Some ''Id'', f_name = Some ''id'', f_type = Some ''string'',
          f_description = None, f_default = None, f_options = None, f_required = Some True,
          f_typeOptions = None, f_routing = None\<rparr>"
    by (simp add: eval_defs pathParameter_def)
  have h2: "resolveParameter testEnv (Val pathParameter) = Inr pathParameter"
    by (simp add: testEnv_def)
  show ?thesis
    using h1 h2 fromParameter_required_flag [OF h1 h2]
    by (simp add: pathParameter_def plainParameter_def)
qed

text \<open>
  C10. An absent request body compiles to the empty list of descriptors, and so does an
  absent parameter list, in both variants and without any fault.
\<close>

theorem absent_inputs_give_empty_list:
  "fromRequestBody v env None = Inr [] \<and> fromParameters v env None = Inr []"
  by (cases v) (simp_all add: fromRequestBody_def fromRequestBody_A_def fromRequestBody_B_def
        fromParameters_def)

lemma locationRouting_query:
  "p_in parameter = ''query'' \<Longrightarrow>
     locationRouting parameter schema True field =
       Inr (field\<lparr>f_routing := Some (getArrayQueryRouting parameter schema)\<rparr>)"
  by (simp add: locationRouting_def)

lemma fieldSchemaKeys_source:
  assumes "schemaSource parameter = Some schemaArg"
    and "resolveSchema env schemaArg = Inr schema"
  shows "fieldSchemaKeys v env parameter = Inr (Some (schemaField v env schema))"
proof (cases "p_schema parameter")
  case (Some s)
  with assms(1) have "schemaArg = Some s"
    by (simp add: schemaSource_def)
  with assms(2) have "fromSchema v env (Some s) = Inr (schemaField v env schema)"
    by (simp add: fromSchema_resolved)
  with Some show ?thesis
    by (simp add: fieldSchemaKeys_def)
next
  case None
  then obtain entries kv where
    e: "p_content parameter = Some entries" "firstWhere jsonRegexp entries = Some kv"
       "schemaArg = mt_schema (snd kv)"
    using assms(1) by (auto simp: schemaSource_def split: option.splits)
  then show ?thesis
    using None assms(2)
    by (simp add: fieldSchemaKeys_def jsonRegexp_find fromSchema_resolved)
qed

lemma parameterSchema_source:
  assumes "schemaSource parameter = Some schemaArg"
  shows "parameterSchema parameter = Inr schemaArg"
  using assms
  by (auto simp: schemaSource_def parameterSchema_def jsonRegexp_find split: option.splits)

lemma getArrayQueryRouting_literal:
  "getArrayQueryRouting parameter schema =
     \<lparr>r_send = Some
        \<lparr>send_type = ''query'',
         send_property = p_name parameter,
         send_value = Some
           (if (p_style parameter = None \<or> p_style parameter = Some []
                \<or> p_style parameter = Some ''form'')
               \<and> p_explode parameter = Some False
            then ''={{ $value.items ? $value.items.map(item => item.value).join(\",\") : \"\" }}''
            else ''={{ $value.items ? $value.items.map(item => item.value) : [] }}''),
         send_propertyInDotNotation = Some False\<rparr>,
      r_request = None\<rparr>"
  by (cases "p_style parameter")
     (auto simp: getArrayQueryRouting_def querySend_def joinedValue_def repeatedValue_def
        orLit_def Let_def)

text \<open>
  C5 (as amended). For a query parameter whose declared schema resolves to a schema of
  array kind: when the schema has an item schema and that resolves, \<^verbatim>\<open>fromParameter\<close>
  returns a descriptor of type \<^verbatim>\<open>fixedCollection\<close> whose routing rule is a query entry
  under the parameter's name, and its value expression joins the selected items with
  commas when the style is \<^verbatim>\<open>form\<close> (given, or by default when the style is absent or
  empty) and explode is \<^verbatim>\<open>false\<close>, and sends one entry per item in every other
  combination of style and explode: with \<^verbatim>\<open>form\<close> and explode \<^verbatim>\<open>true\<close> or absent, and
  with any other style, none of which raises a fault. When the array schema has no item
  schema, \<^verbatim>\<open>fromParameter\<close> raises the explicit error of the type guard of
  \<^verbatim>\<open>fromArrayQueryParameter\<close>, whatever the style and explode, and when the item schema
  does not resolve, the fault of the resolver.
\<close>

theorem array_query_routing:
  assumes "resolveParameter env parameter0 = Inr parameter"
    and "p_in parameter = ''query''"
    and "schemaSource parameter = Some schemaArg"
    and "resolveSchema env schemaArg = Inr schema"
    and "s_type schema = Some ''array''"
  shows "case s_items schema of
           None \<Rightarrow>
             fromParameter v env parameter0 =
               Inl (Error ''fromArrayQueryParameter called with non-array schema'')
         | Some items \<Rightarrow>
             (case resolveSchema env (Some items) of
                Inl e \<Rightarrow> fromParameter v env parameter0 = Inl e
              | Inr itemsSchema \<Rightarrow>
                  (\<exists>f. fromParameter v env parameter0 = Inr f
                     \<and> f_type f = Some ''fixedCollection''
                     \<and> f_routing f = Some
                         \<lparr>r_send = Some
                            \<lparr>send_type = ''query'',
                             send_property = p_name parameter,
                             send_value = Some
                               (if (p_style parameter = None \<or> p_style parameter = Some []
                                    \<or> p_style parameter = Some ''form'')
                                   \<and> p_explode parameter = Some False
                                then ''={{ $value.items ? $value.items.map(item => item.value).join(\",\") : \"\" }}''
                                else ''={{ $value.items ? $value.items.map(item => item.value) : [] }}''),
                             send_propertyInDotNotation = Some False\<rparr>,
                          r_request = None\<rparr>))"
proof -
  note k = fieldSchemaKeys_source [OF assms(3) assms(4), of v]
  note a = parameterSchema_source [OF assms(3)]
  show ?thesis
  proof (cases "s_items schema")
    case None
    then show ?thesis
      using assms(1,2,4,5) k a
      by (simp add: fromParameter_def Let_def fromArrayQueryParameter_def)
  next
    case (Some items)
    show ?thesis
    proof (cases "resolveSchema env (Some items)")
      case (Inl e)
      then show ?thesis
        using Some assms(1,2,4,5) k a
        by (simp add: fromParameter_def Let_def fromArrayQueryParameter_def)
    next
      case (Inr itemsSchema)
      then obtain c where c: "fromArrayQueryParameter v env schema parameter = Inr c"
        and t: "f_type c = Some ''fixedCollection''"
        using Some assms(5) by (simp add: fromArrayQueryParameter_def Let_def emptyField_def)
      have "fromParameter v env parameter0 =
              Inr (dropFalseRequired ((combine [fieldParameterKeys env parameter, c])
                     \<lparr>f_routing := Some (getArrayQueryRouting parameter schema)\<rparr>))"
        using assms(1,2,4,5) k a c by (simp add: fromParameter_def Let_def locationRouting_query)
      moreover have "f_type (combine [fieldParameterKeys env parameter, c]) = Some ''fixedCollection''"
        using t by (simp add: combine_two defaults_def fieldParameterKeys_def emptyField_def)
      ultimately show ?thesis
        using Some Inr by (simp add: getArrayQueryRouting_literal)
    qed
  qed
qed

theorem array_query_routing_witness:
  "map_sum id f_routing (fromParameter VariantA testEnv (Val tagsParameter)) =
     Inr (Some
       \<lparr>r_send = Some
          \<lparr>send_type = ''query'',
           send_property = ''tags'',
           send_value = Some
             ''={{ $value.items ? $value.items.map(item => item.value).join(\",\") : \"\" }}'',
           send_propertyInDotNotation = Some False\<rparr>,
        r_request = None\<rparr>)
   \<and> map_sum id f_type (fromParameter VariantA testEnv (Val tagsParameter)) =
     Inr (Some ''fixedCollection'')"
proof -
  have h1: "resolveParameter testEnv (Val tagsParameter) = Inr tagsParameter"
    by (simp add: testEnv_def)
  have h2: "p_in tagsParameter = ''query''"
    by (simp add: tagsParameter_def plainParameter_def)
  have h3: "schemaSource tagsParameter = Some (Some (Val arraySchema))"
    by (simp add: schemaSource_def tagsParameter_def plainParameter_def)
  have h4: "resolveSchema testEnv (Some (Val arraySchema)) = Inr arraySchema"
    by (simp add: testEnv_def)
  have h5: "s_type arraySchema = Some ''array''"
    by (simp add: arraySchema_def)
  have i: "s_items arraySchema = Some (Val (plainSchema ''string''))"
    "resolveSchema testEnv (Some (Val (plainSchema ''string''))) = Inr (plainSchema ''string'')"
    "p_style tagsParameter = Some ''form''" "p_explode tagsParameter = Some False"
    "p_name tagsParameter = ''tags''"
    by (simp_all add: arraySchema_def testEnv_def tagsParameter_def plainParameter_def)
  from array_query_routing [OF h1 h2 h3 h4 h5, of VariantA]
  show ?thesis
    by (auto simp: i)
qed

text \<open>
  The claim C5 as stated fails on a query parameter whose schema is of array kind without
  item schema: with style \<^verbatim>\<open>form\<close> and explode \<^verbatim>\<open>false\<close> no routing rule is
  synthesized, \<^verbatim>\<open>fromParameter\<close> raises the error of the type guard, in both variants.
\<close>

theorem array_query_routing_counterexample:
  "p_in itemlessParameter = ''query''
   \<and> p_style itemlessParameter = Some ''form'' \<and> p_explode itemlessParameter = Some False
   \<and> resolveSchema testEnv (p_schema itemlessParameter) = Inr (plainSchema ''array'')
   \<and> s_type (plainSchema ''array'') = Some ''array''
   \<and> fromParameter VariantA testEnv (Val itemlessParameter) =
       Inl (Error ''fromArrayQueryParameter called with non-array schema'')
   \<and> fromParameter VariantB testEnv (Val itemlessParameter) =
       Inl (Error ''fromArrayQueryParameter called with non-array schema'')"
  by (simp add: eval_defs itemlessParameter_def fromArrayQueryParameter_def)

text \<open>
  A parameter without attached schema and without JSON content entry never reaches the
  \<^verbatim>\<open>throw new Error(`Parameter schema nor content not found`)\<close> of \<^verbatim>\<open>fromParameter\<close>: the
  statements before it raise a \<^verbatim>\<open>TypeError\<close>.
\<close>

lemma fromParameter_without_schema:
  assumes "resolveParameter env parameter0 = Inr parameter"
    and "p_schema parameter = None"
    and "case p_content parameter of None \<Rightarrow> True | Some kvs \<Rightarrow> find jsonRegexp (map fst kvs) = None"
  shows "\<exists>msg. fromParameter v env parameter0 = Inl (TypeError msg)"
  using assms
  by (cases "p_content parameter")
     (simp_all add: fromParameter_def fieldSchemaKeys_def findKey_def)

text \<open>
  C9. On a parameter with neither schema nor content map, \<^verbatim>\<open>fromParameter\<close> ends in the
  \<^verbatim>\<open>TypeError\<close> of \<^verbatim>\<open>Object.keys(undefined)\<close> inside \<^verbatim>\<open>findKey\<close>, and on a parameter
  whose content map has no JSON-compatible key in the \<^verbatim>\<open>TypeError\<close> of reading
  \<^verbatim>\<open>content.schema\<close> from \<^verbatim>\<open>undefined\<close>; in neither case in the explicit error for a
  missing schema or content. Both variants behave so.
\<close>

theorem fromParameter_missing_schema_fault:
  "fromParameter VariantA testEnv (Val (plainParameter ''filter'' ''query'')) =
     Inl (TypeError ''Cannot convert undefined or null to object'')
   \<and> fromParameter VariantB testEnv (Val (plainParameter ''filter'' ''query'')) =
     Inl (TypeError ''Cannot convert undefined or null to object'')
   \<and> fromParameter VariantA testEnv (Val textParameter) =
     Inl (TypeError (''Cannot read properties of undefined (reading ''
                     @ [CHR 0x27] @ ''schema'' @ [CHR 0x27] @ '')''))
   \<and> fromParameter VariantB testEnv (Val textParameter) =
     Inl (TypeError (''Cannot read properties of undefined (reading ''
                     @ [CHR 0x27] @ ''schema'' @ [CHR 0x27] @ '')''))"
  by (simp add: eval_defs textParameter_def)

text \<open>
  C3 (as amended). For a schema of boolean kind for which the example extractor returns
  no value, \<^verbatim>\<open>fromSchema\<close> produces a field whose default is \<^verbatim>\<open>false\<close> in the first
  variant and \<^verbatim>\<open>true\<close> in the second, and whose presentation type is \<^verbatim>\<open>boolean\<close> unless
  the schema declares a non-empty enumeration, which makes it \<^verbatim>\<open>options\<close>.
\<close>

theorem boolean_schema_default:
  assumes "resolveSchema env schema0 = Inr schema"
    and "s_type schema = Some ''boolean''"
    and "extractExample env schema = None"
  shows "\<exists>f. fromSchema v env schema0 = Inr f
           \<and> f_default f = Some (booleanDefault v)
           \<and> f_type f = Some (if hasLiterals schema then ''options'' else ''boolean'')"
  using assms
  by (cases v)
     (simp_all add: fromSchema_def fromSchema_A_def fromSchema_B_def schemaField_A_def
        schemaField_B_def typeAndDefault_A_def typeAndDefault_B_def Let_def emptyField_def
        booleanDefault_def hasLiterals_def split: option.split list.split)


theorem boolean_schema_default_witness:
  "fromSchema VariantA testEnv (Some (Val (plainSchema ''boolean''))) =
     Inr (emptyField\<lparr>f_type := Some ''boolean'', f_default := Some (JBool False)\<rparr>)
   \<and> fromSchema VariantB testEnv (Some (Val (plainSchema ''boolean''))) =
     Inr (emptyField\<lparr>f_type := Some ''boolean'', f_default := Some (JBool True)\<rparr>)"
proof -
  have h1: "resolveSchema testEnv (Some (Val (plainSchema ''boolean''))) = Inr (plainSchema ''boolean'')"
    by (simp add: testEnv_def)
  have h2: "s_type (plainSchema ''boolean'') = Some ''boolean''"
    by (simp add: plainSchema_def)
  have h3: "extractExample testEnv (plainSchema ''boolean'') = None"
    by (simp add: testEnv_def)
  have e: "fromSchema VariantA testEnv (Some (Val (plainSchema ''boolean''))) =
     Inr (emptyField\<lparr>f_type := Some ''boolean'', f_default := Some (JBool False)\<rparr>)"
    "fromSchema VariantB testEnv (Some (Val (plainSchema ''boolean''))) =
     Inr (emptyField\<lparr>f_type := Some ''boolean'', f_default := Some (JBool True)\<rparr>)"
    by (simp_all add: eval_defs)
  from boolean_schema_default [OF h1 h2 h3, of VariantA] e
  show ?thesis by simp
qed

text \<open>
  The claim C3 as stated fails twice: a boolean schema with an enumeration gets the
  presentation type \<^verbatim>\<open>options\<close> in the first variant, and a plain boolean schema gets
  the default \<^verbatim>\<open>true\<close> in the second.
\<close>

theorem boolean_schema_counterexample:
  "s_type boolEnumSchema = Some ''boolean'' \<and> extractExample testEnv boolEnumSchema = None
   \<and> map_sum id f_type (fromSchema VariantA testEnv (Some (Val boolEnumSchema)))
       = Inr (Some ''options'')
   \<and> s_type (plainSchema ''boolean'') = Some ''boolean''
   \<and> extractExample testEnv (plainSchema ''boolean'') = None
   \<and> map_sum id f_default (fromSchema VariantB testEnv (Some (Val (plainSchema ''boolean''))))
       = Inr (Some (JBool True))"
  by (simp add: eval_defs boolEnumSchema_def)

text \<open>
  C4 (as amended). For a schema that declares a non-empty enumeration, the field produced
  by \<^verbatim>\<open>fromSchema\<close> has the presentation type \<^verbatim>\<open>options\<close> whatever the kind of the
  schema, its options are the literals in order, each labelled by \<^verbatim>\<open>startCase\<close> of the
  literal and valued by the literal, and its default is the default computed before the
  override when the override keeps it, else the first literal: the first variant keeps a
  default that is present, the second one that is present and truthy. In particular, for
  \<^verbatim>\<open>{type: "string", enum: ["a_b", "c"]}\<close> without example, where \<^verbatim>\<open>startCase\<close> gives
  \<^verbatim>\<open>A B\<close> and \<^verbatim>\<open>C\<close>, the options are labelled so and the default is \<^verbatim>\<open>a_b\<close>, in both
  variants.
\<close>

theorem enum_override:
  assumes "resolveSchema env schema0 = Inr schema"
    and "s_enum schema = Some (first # others)"
  shows "\<exists>f. fromSchema v env schema0 = Inr f
           \<and> f_type f = Some ''options''
           \<and> f_options f =
               Some (map (\<lambda>literal. OptionValue (startCase env literal) literal) (first # others))
           \<and> f_default f =
               (if keptDefault v (defaultBeforeOverride v env schema)
                then defaultBeforeOverride v env schema else Some first)
           \<and> (s_type schema = Some ''string'' \<and> extractExample env schema = None
                \<and> first = JStr ''a_b'' \<and> others = [JStr ''c'']
                \<and> startCase env (JStr ''a_b'') = ''A B'' \<and> startCase env (JStr ''c'') = ''C''
               \<longrightarrow> f_options f = Some [OptionValue ''A B'' (JStr ''a_b''), OptionValue ''C'' (JStr ''c'')]
                   \<and> f_default f = Some (JStr ''a_b''))"
  using assms
  by (cases v)
     (auto simp: fromSchema_def fromSchema_A_def fromSchema_B_def schemaField_A_def
        schemaField_B_def Let_def emptyField_def enumOptions_def keptDefault_def
        defaultBeforeOverride_def typeAndDefault_A_def typeAndDefault_B_def split: option.split)


theorem enum_override_witness:
  "fromSchema VariantA testEnv (Some (Val enumSchema)) =
     Inr (emptyField
       \<lparr>f_type := Some ''options'',
        f_default := Some (JStr ''a_b''),
        f_options := Some [OptionValue ''A B'' (JStr ''a_b''), OptionValue ''C'' (JStr ''c'')]\<rparr>)
   \<and> fromSchema VariantB testEnv (Some (Val enumSchema)) =
     Inr (emptyField
       \<lparr>f_type := Some ''options'',
        f_default := Some (JStr ''a_b''),
        f_options := Some [OptionValue ''A B'' (JStr ''a_b''), OptionValue ''C'' (JStr ''c'')]\<rparr>)"
proof -
  have h1: "resolveSchema testEnv (Some (Val enumSchema)) = Inr enumSchema"
    by (simp add: testEnv_def)
  have h2: "s_enum enumSchema = Some (JStr ''a_b'' # [JStr ''c''])"
    by (simp add: enumSchema_def)
  have h3: "s_type enumSchema = Some ''string''" "extractExample testEnv enumSchema = None"
    "startCase testEnv (JStr ''a_b'') = ''A B''" "startCase testEnv (JStr ''c'') = ''C''"
    by (simp_all add: eval_defs enumSchema_def)
  have e: "fromSchema VariantA testEnv (Some (Val enumSchema)) =
     Inr (emptyField
       \<lparr>f_type := Some ''options'',
        f_default := Some (JStr ''a_b''),
        f_options := Some [OptionValue ''A B'' (JStr ''a_b''), OptionValue ''C'' (JStr ''c'')]\<rparr>)"
    "fromSchema VariantB testEnv (Some (Val enumSchema)) =
     Inr (emptyField
       \<lparr>f_type := Some ''options'',
        f_default := Some (JStr ''a_b''),
        f_options := Some [OptionValue ''A B'' (JStr ''a_b''), OptionValue ''C'' (JStr ''c'')]\<rparr>)"
    by (simp_all add: eval_defs enumSchema_def)
  from enum_override [OF h1 h2, of VariantA] h3 e
  show ?thesis by simp
qed

text \<open>
  The claim C4 as stated fails in the second variant: for a boolean schema with the
  literals \<^verbatim>\<open>true\<close>, \<^verbatim>\<open>false\<close> and the example \<^verbatim>\<open>false\<close>, the default computed before the
  override is present, it is \<^verbatim>\<open>false\<close>, and the default of the field is the first
  literal, \<^verbatim>\<open>true\<close>.
\<close>

theorem enum_override_counterexample:
  "s_enum boolEnumSchema = Some [JBool True, JBool False]
   \<and> snd (typeAndDefault_B falseExampleEnv boolEnumSchema
             (extractExample falseExampleEnv boolEnumSchema)) = Some (JBool False)
   \<and> map_sum id f_default (fromSchema VariantB falseExampleEnv (Some (Val boolEnumSchema)))
       = Inr (Some (JBool True))"
  by (simp add: eval_defs boolEnumSchema_def falseExampleEnv_def)

lemma map_of_firstWhere: "map_of kvs k = map_option snd (firstWhere (\<lambda>k'. k' = k) kvs)"
  by (induction kvs) (auto simp: firstWhere_def)

lemma selectContent_A_spec:
  "selectContent_A (Some entries) =
     (case specContent_A entries of
        None \<Rightarrow> Inl (Error ''No content found in request body'')
      | Some selected \<Rightarrow> Inr selected)"
proof (cases "firstWhere jsonRegexp entries")
  case None
  note noJson = None
  have w: "map_of entries ''*/*'' = map_option snd (firstWhere (\<lambda>k. k = ''*/*'') entries)"
    by (rule map_of_firstWhere)
  show ?thesis
  proof (cases "firstWhere (\<lambda>k. k = ''*/*'') entries")
    case (Some kv)
    then show ?thesis
      using noJson w
      by (simp add: selectContent_A_def jsonRegexp_find specContent_A_def orEmpty_def Let_def)
  next
    case None
    note noWild = None
    show ?thesis
    proof (cases entries)
      case Nil
      then show ?thesis
        by (simp add: selectContent_A_def jsonRegexp_find specContent_A_def firstWhere_def
              orEmpty_def)
    next
      case (Cons kv rest)
      have h: "map_of entries (fst kv) = Some (snd kv)" "map fst entries = fst kv # map fst rest"
        using Cons by (cases kv, simp)+
      have c: "(case entries of [] \<Rightarrow> None | kv # rest \<Rightarrow> Some (snd kv, fst kv))
                 = Some (snd kv, fst kv)"
        using Cons by simp
      show ?thesis
        using noJson noWild w h
        by (simp add: selectContent_A_def jsonRegexp_find specContent_A_def orEmpty_def Let_def c)
    qed
  qed
next
  case (Some kv)
  then show ?thesis
    by (simp add: selectContent_A_def jsonRegexp_find specContent_A_def Let_def)
qed

lemma selectContent_B_spec:
  "selectContent_B (Some entries) =
     (case specContent_B entries of None \<Rightarrow> Inl noJsonContent | Some content \<Rightarrow> Inr content)"
  by (simp add: selectContent_B_def jsonRegexp_find specContent_B_def noJsonContent_def
        split: option.split)

text \<open>
  C2 (as amended). For a request body with a content map, the first variant of
  \<^verbatim>\<open>fromRequestBody\<close> compiles the schema of the content entry chosen in this order: the
  first entry whose media type is JSON-compatible (the pattern \<^verbatim>\<open>application/json\<close> occurs in
  it), else the entry of the wildcard media type \<^verbatim>\<open>*/*\<close>, else the first entry in document
  order; the second variant compiles the first JSON-compatible entry and raises an
  explicit error when there is none, whatever else the map holds. Both raise an explicit
  error on a content map without entries.
\<close>

theorem request_body_content_order:
  assumes "resolveRequestBody env b = Inr body"
    and "rb_content body = Some entries"
  shows "fromRequestBody VariantA env (Some b) =
           (case specContent_A entries of
              None \<Rightarrow> Inl (Error ''No content found in request body'')
            | Some selected \<Rightarrow>
                bindE (resolveSchema env (mt_schema (fst selected)))
                  (\<lambda>schema. compileBody_A env body schema (snd selected)))
         \<and> fromRequestBody VariantB env (Some b) =
           (case specContent_B entries of
              None \<Rightarrow> Inl noJsonContent
            | Some content \<Rightarrow>
                bindE (resolveSchema env (mt_schema content)) (\<lambda>schema. compileBody_B env schema))
         \<and> (entries = [] \<longrightarrow>
              fromRequestBody VariantA env (Some b) = Inl (Error ''No content found in request body'')
              \<and> fromRequestBody VariantB env (Some b) = Inl noJsonContent)"
proof -
  have A: "fromRequestBody VariantA env (Some b) =
           (case specContent_A entries of
              None \<Rightarrow> Inl (Error ''No content found in request body'')
            | Some selected \<Rightarrow>
                bindE (resolveSchema env (mt_schema (fst selected)))
                  (\<lambda>schema. compileBody_A env body schema (snd selected)))"
    using assms
    by (simp add: fromRequestBody_def fromRequestBody_A_def selectContent_A_spec split: option.split)
  have B: "fromRequestBody VariantB env (Some b) =
           (case specContent_B entries of
              None \<Rightarrow> Inl noJsonContent
            | Some content \<Rightarrow>
                bindE (resolveSchema env (mt_schema content)) (\<lambda>schema. compileBody_B env schema))"
    using assms
    by (simp add: fromRequestBody_def fromRequestBody_B_def selectContent_B_spec split: option.split)
  have E: "specContent_A [] = None" "specContent_B [] = None"
    by (simp_all add: specContent_A_def specContent_B_def firstWhere_def)
  show ?thesis
    using A B E by auto
qed


theorem request_body_content_order_witness:
  "fromRequestBody VariantA testEnv (Some (Val emptyBody)) =
     Inl (Error ''No content found in request body'')
   \<and> fromRequestBody VariantB testEnv (Some (Val emptyBody)) = Inl noJsonContent"
proof -
  have h1: "resolveRequestBody testEnv (Val emptyBody) = Inr emptyBody"
    by (simp add: testEnv_def)
  have h2: "rb_content emptyBody = Some []"
    by (simp add: emptyBody_def)
  from request_body_content_order [OF h1 h2]
  show ?thesis by blast
qed

text \<open>
  The claim C2 as stated fails in the second variant: a body whose only content entry is
  the wildcard media type is not compiled from that entry, it raises the error.
\<close>

theorem request_body_content_counterexample:
  "rb_content wildcardBody = Some [(''*/*'', \<lparr>mt_schema = Some (Val objectBodySchema)\<rparr>)]
   \<and> specContent_A [(''*/*'', \<lparr>mt_schema = Some (Val objectBodySchema)\<rparr>)]
       = Some (\<lparr>mt_schema = Some (Val objectBodySchema)\<rparr>, ''*/*'')
   \<and> fromRequestBody VariantB testEnv (Some (Val wildcardBody)) = Inl noJsonContent"
  by (simp add: wildcardBody_def specContent_A_def firstWhere_def fromRequestBody_def
        fromRequestBody_B_def selectContent_B_def findKey_def testEnv_def)


lemma schemaField_names [simp]:
  "f_name (schemaField v env schema) = None" "f_displayName (schemaField v env schema) = None"
  "f_routing (schemaField v env schema) = None"
  by (cases v;
      simp add: schemaField_def schemaField_A_def schemaField_B_def Let_def emptyField_def
        split: option.split list.split)+







end
